theory Spec2Isabelle
  imports Main "HOL-Library.Word" "HOL-Library.Sublist"
begin

section \<open>Fault handling of libmaple: \<^verbatim>\<open>firmware/libmaple/util.c\<close>\<close>

text \<open>
  The file \<^verbatim>\<open>util.c\<close> holds the fault path of the firmware: \<^verbatim>\<open>_fail\<close> and
  \<^verbatim>\<open>abort\<close> write a message on a USART, \<^verbatim>\<open>__error\<close> switches the peripherals off
  and \<^verbatim>\<open>throb\<close> fades a LED forever. Identifiers of the C file keep their names;
  leading underscores, which an Isabelle name cannot have, are written \<open>u_\<close>
  (\<^verbatim>\<open>_fail\<close> is \<open>u_fail\<close>, \<^verbatim>\<open>__error\<close> is \<open>uu_error\<close>).
\<close>

subsection \<open>Devices, modes and build-time configuration\<close>

text \<open>
  The device tables and enumerations are declared in \<^verbatim>\<open>usart.h\<close>, \<^verbatim>\<open>gpio.h\<close>,
  \<^verbatim>\<open>nvic.h\<close> and \<^verbatim>\<open>stm32.h\<close>, outside \<^verbatim>\<open>util.c\<close>. Each type names the
  members that \<^verbatim>\<open>util.c\<close> uses and leaves room for every other one.
\<close>

datatype usart_dev = USART1 | USART2 | USART_OTHER nat

datatype gpio_dev = GPIOA | GPIO_OTHER nat

datatype gpio_pin_mode = GPIO_OUTPUT_PP | GPIO_AF_OUTPUT_PP | GPIO_MODE_OTHER nat

datatype nvic_irq_num = NVIC_USB_HP_CAN_TX | NVIC_USB_LP_CAN_RX0 | NVIC_IRQ_OTHER nat

datatype clk_speed = STM32_PCLK1 | STM32_PCLK2

type_synonym uint32 = "32 word"

text \<open>
  A C \<^verbatim>\<open>int\<close> and an \<^verbatim>\<open>int32\<close> are 32 bits wide on this target. They are kept as
  their bit pattern; the conversion to \<^verbatim>\<open>uint32\<close> that C applies in
  \<^verbatim>\<open>usart_putudec(ERROR_USART, line)\<close> and in \<^verbatim>\<open>CC += slope\<close> keeps that pattern.
\<close>

type_synonym int32 = "32 word"

text \<open>
  The macros of lines 41--62. \<open>ERROR_LED_PORT\<close> and \<open>ERROR_LED_PIN\<close> are
  \<open>None\<close> when the build does not define them.
\<close>

record config =
  ERROR_USART :: usart_dev
  ERROR_USART_CLK_SPEED :: clk_speed
  ERROR_USART_BAUD :: nat
  ERROR_TX_PORT :: gpio_dev
  ERROR_TX_PIN :: nat
  ERROR_LED_PORT :: "gpio_dev option"
  ERROR_LED_PIN :: "nat option"

text \<open>
  The two presets of lines 41--55: the first argument says whether
  \<^verbatim>\<open>BOARD_safecast\<close> is defined. (A build that defines \<^verbatim>\<open>ERROR_USART\<close> itself
  gives the five macros itself; the theorems below hold for every \<open>config\<close>.)
\<close>

definition board_config :: "bool \<Rightarrow> gpio_dev option \<Rightarrow> nat option \<Rightarrow> config" where
  "board_config BOARD_safecast led_port led_pin =
     (if BOARD_safecast
      then \<lparr>ERROR_USART = USART1, ERROR_USART_CLK_SPEED = STM32_PCLK2,
            ERROR_USART_BAUD = 115200, ERROR_TX_PORT = GPIOA, ERROR_TX_PIN = 7,
            ERROR_LED_PORT = led_port, ERROR_LED_PIN = led_pin\<rparr>
      else \<lparr>ERROR_USART = USART2, ERROR_USART_CLK_SPEED = STM32_PCLK1,
            ERROR_USART_BAUD = 9600, ERROR_TX_PORT = GPIOA, ERROR_TX_PIN = 2,
            ERROR_LED_PORT = led_port, ERROR_LED_PIN = led_pin\<rparr>)"

text \<open>Lines 60--62.\<close>

definition HAVE_ERROR_LED :: "config \<Rightarrow> bool" where
  "HAVE_ERROR_LED cfg = (ERROR_LED_PORT cfg \<noteq> None \<and> ERROR_LED_PIN cfg \<noteq> None)"

subsection \<open>The peripherals\<close>

text \<open>
  One constructor for each driver function that \<^verbatim>\<open>util.c\<close> calls, with the
  arguments of the call. The field \<open>oplog\<close> of the hardware state lists the calls
  made so far, oldest first.
\<close>

datatype call =
    Nvic_irq_disable_all
  | Timer_disable_all
  | Adc_disable_all
  | Usart_disable_all
  | Nvic_irq_enable nvic_irq_num
  | Nvic_globalirq_enable
  | Gpio_set_mode gpio_dev nat gpio_pin_mode
  | Gpio_write_bit gpio_dev nat nat
  | Usart_init usart_dev
  | Usart_set_baud_rate usart_dev clk_speed nat
  | Usart_putstr usart_dev string
  | Usart_putudec usart_dev uint32
  | Usart_putc usart_dev char

record hw =
  nvic_enabled :: "nvic_irq_num set"
  globalirq :: bool
  timers_enabled :: "nat set"
  adcs_enabled :: "nat set"
  usarts_enabled :: "usart_dev set"
  usarts_initialized :: "usart_dev set"
  usart_baud :: "usart_dev \<rightharpoonup> clk_speed \<times> nat"
  usart_tx :: "usart_dev \<Rightarrow> string"
  gpio_mode :: "gpio_dev \<times> nat \<rightharpoonup> gpio_pin_mode"
  gpio_level :: "gpio_dev \<times> nat \<rightharpoonup> bool"
  oplog :: "call list"

definition logged :: "call \<Rightarrow> hw \<Rightarrow> hw" where
  "logged c h = h\<lparr>oplog := oplog h @ [c]\<rparr>"

text \<open>The peripheral state alone: the hardware state with the list of calls forgotten.\<close>

definition periph :: "hw \<Rightarrow> hw" where
  "periph h = h\<lparr>oplog := []\<rparr>"

text \<open>
  Modelled from the spec: \<^verbatim>\<open>nvic_irq_disable_all\<close> (\<^verbatim>\<open>nvic.h\<close>, not among the
  sources), "disable all interrupt sources at the controller".
\<close>

definition nvic_irq_disable_all :: "hw \<Rightarrow> hw" where
  "nvic_irq_disable_all h = logged Nvic_irq_disable_all (h\<lparr>nvic_enabled := {}\<rparr>)"

text \<open>
  Modelled from the spec: \<^verbatim>\<open>timer_disable_all\<close> (\<^verbatim>\<open>timer.h\<close>, not among the
  sources), "disable all timer peripherals".
\<close>

definition timer_disable_all :: "hw \<Rightarrow> hw" where
  "timer_disable_all h = logged Timer_disable_all (h\<lparr>timers_enabled := {}\<rparr>)"

text \<open>
  Modelled from the spec: \<^verbatim>\<open>adc_disable_all\<close> (\<^verbatim>\<open>adc.h\<close>, not among the sources),
  "disable all analog-to-digital peripherals".
\<close>

definition adc_disable_all :: "hw \<Rightarrow> hw" where
  "adc_disable_all h = logged Adc_disable_all (h\<lparr>adcs_enabled := {}\<rparr>)"

text \<open>
  Modelled from the spec: \<^verbatim>\<open>usart_disable_all\<close> (\<^verbatim>\<open>usart.h\<close>, not among the
  sources), "disable all serial peripherals".
\<close>

definition usart_disable_all :: "hw \<Rightarrow> hw" where
  "usart_disable_all h = logged Usart_disable_all (h\<lparr>usarts_enabled := {}\<rparr>)"

text \<open>
  Modelled from the spec: \<^verbatim>\<open>nvic_irq_enable\<close> (\<^verbatim>\<open>nvic.h\<close>, not among the sources),
  the interrupt controller's "enable-by-id".
\<close>

definition nvic_irq_enable :: "nvic_irq_num \<Rightarrow> hw \<Rightarrow> hw" where
  "nvic_irq_enable n h = logged (Nvic_irq_enable n) (h\<lparr>nvic_enabled := insert n (nvic_enabled h)\<rparr>)"

text \<open>
  Modelled from the spec: \<^verbatim>\<open>nvic_globalirq_enable\<close> (\<^verbatim>\<open>nvic.h\<close>, not among the
  sources), "re-enable interrupts globally".
\<close>

definition nvic_globalirq_enable :: "hw \<Rightarrow> hw" where
  "nvic_globalirq_enable h = logged Nvic_globalirq_enable (h\<lparr>globalirq := True\<rparr>)"

text \<open>
  Modelled from the spec: \<^verbatim>\<open>gpio_set_mode\<close> (\<^verbatim>\<open>gpio.h\<close>, not among the sources),
  the digital I/O's "set-pin-mode".
\<close>

definition gpio_set_mode :: "gpio_dev \<Rightarrow> nat \<Rightarrow> gpio_pin_mode \<Rightarrow> hw \<Rightarrow> hw" where
  "gpio_set_mode dev pin mode h =
     logged (Gpio_set_mode dev pin mode) (h\<lparr>gpio_mode := (gpio_mode h)((dev, pin) \<mapsto> mode)\<rparr>)"

text \<open>
  Modelled from the spec: \<^verbatim>\<open>gpio_write_bit\<close> (\<^verbatim>\<open>gpio.h\<close>, not among the sources),
  the digital I/O's "write-bit": the pin is driven high for a value other than 0,
  low for 0.
\<close>

definition gpio_write_bit :: "gpio_dev \<Rightarrow> nat \<Rightarrow> nat \<Rightarrow> hw \<Rightarrow> hw" where
  "gpio_write_bit dev pin val h =
     logged (Gpio_write_bit dev pin val) (h\<lparr>gpio_level := (gpio_level h)((dev, pin) \<mapsto> (val \<noteq> 0))\<rparr>)"

text \<open>
  Modelled from the spec: \<^verbatim>\<open>usart_init\<close> (\<^verbatim>\<open>usart.h\<close>, not among the sources),
  the per-channel "init" that "initializes the serial hardware".
\<close>

definition usart_init :: "usart_dev \<Rightarrow> hw \<Rightarrow> hw" where
  "usart_init dev h =
     logged (Usart_init dev) (h\<lparr>usarts_initialized := insert dev (usarts_initialized h)\<rparr>)"

text \<open>
  Modelled from the spec: \<^verbatim>\<open>usart_set_baud_rate\<close> (\<^verbatim>\<open>usart.h\<close>, not among the
  sources), the per-channel "configure-baud" that "applies clock source and baud
  rate".
\<close>

definition usart_set_baud_rate :: "usart_dev \<Rightarrow> clk_speed \<Rightarrow> nat \<Rightarrow> hw \<Rightarrow> hw" where
  "usart_set_baud_rate dev clock baud h =
     logged (Usart_set_baud_rate dev clock baud) (h\<lparr>usart_baud := (usart_baud h)(dev \<mapsto> (clock, baud))\<rparr>)"

text \<open>
  Modelled from the spec: what the serial drivers of \<^verbatim>\<open>usart.h\<close> (not among the
  sources) do to a channel. The characters that a channel has sent, oldest first,
  are \<open>usart_tx h dev\<close>; \<open>transmit\<close> sends some more. Transmission is
  "synchronous and unacknowledged": a write returns once its characters are out.
\<close>

definition transmit :: "usart_dev \<Rightarrow> string \<Rightarrow> hw \<Rightarrow> hw" where
  "transmit dev s h = h\<lparr>usart_tx := (usart_tx h)(dev := usart_tx h dev @ s)\<rparr>"

text \<open>
  Modelled from the spec: \<^verbatim>\<open>usart_putc\<close> (\<^verbatim>\<open>usart.h\<close>, not among the sources), the
  per-channel "write-character".
\<close>

definition usart_putc :: "usart_dev \<Rightarrow> char \<Rightarrow> hw \<Rightarrow> hw" where
  "usart_putc dev c h = logged (Usart_putc dev c) (transmit dev [c] h)"

text \<open>
  Modelled from the spec: \<^verbatim>\<open>usart_putstr\<close> (\<^verbatim>\<open>usart.h\<close>, not among the sources),
  the per-channel "write-string", which transmits "character-by-character". A C
  string is the list of its characters before the terminating NUL.
\<close>

definition usart_putstr :: "usart_dev \<Rightarrow> string \<Rightarrow> hw \<Rightarrow> hw" where
  "usart_putstr dev str h = logged (Usart_putstr dev str) (fold (\<lambda>c. transmit dev [c]) str h)"

text \<open>
  Modelled from the spec: the rendering that \<^verbatim>\<open>usart_putudec\<close> (\<^verbatim>\<open>usart.h\<close>, not
  among the sources) writes, "unsigned decimal, no leading zeros": the decimal
  digits of the number, most significant first.
\<close>

fun udec :: "nat \<Rightarrow> string" where
  "udec n = (if n < 10 then [char_of (48 + n)] else udec (n div 10) @ [char_of (48 + n mod 10)])"

declare udec.simps [simp del]

text \<open>The number that a string of decimal digits denotes.\<close>

definition digits_value :: "string \<Rightarrow> nat" where
  "digits_value s = foldl (\<lambda>acc c. 10 * acc + (of_char c - 48)) 0 s"

text \<open>
  Modelled from the spec: \<^verbatim>\<open>usart_putudec\<close> (\<^verbatim>\<open>usart.h\<close>, not among the sources),
  the per-channel "write-decimal": the value "rendered as unsigned decimal, no
  leading zeros".
\<close>

definition usart_putudec :: "usart_dev \<Rightarrow> uint32 \<Rightarrow> hw \<Rightarrow> hw" where
  "usart_putudec dev val h =
     logged (Usart_putudec dev val) (fold (\<lambda>c. transmit dev [c]) (udec (unat val)) h)"

subsection \<open>Functions that do not return\<close>

text \<open>
  The loops of \<^verbatim>\<open>throb\<close> have no exit. A function that may not return takes
  fuel, the number of loop iterations it is allowed, and gives an outcome:
  \<open>Returned h\<close> when it returns with the hardware in state \<open>h\<close>,
  \<open>Still_running h\<close> when the fuel is used up inside a loop with the hardware
  in state \<open>h\<close>.
\<close>

datatype outcome = Returned hw | Still_running hw

fun state_of :: "outcome \<Rightarrow> hw" where
  "state_of (Returned h) = h"
| "state_of (Still_running h) = h"

subsection \<open>\<^verbatim>\<open>throb\<close>, lines 155--188\<close>

text \<open>The local variables of \<^verbatim>\<open>throb\<close>; \<^verbatim>\<open>TOP_CNT\<close> is never assigned after its
  initialisation and is a constant.\<close>

record waveform_state =
  slope :: int32
  CC :: uint32
  i :: uint32

definition TOP_CNT :: uint32 where
  "TOP_CNT = 0x0200"

definition throb_init :: waveform_state where
  "throb_init = \<lparr>slope = 1, CC = 0x0000, i = 0\<rparr>"

text \<open>One iteration of the \<^verbatim>\<open>while (1)\<close> of lines 164--182.\<close>

definition throb_body :: "gpio_dev \<Rightarrow> nat \<Rightarrow> waveform_state \<times> hw \<Rightarrow> waveform_state \<times> hw" where
  "throb_body port pin s =
     (let w = fst s; h = snd s;
          w = (if CC w = TOP_CNT then w\<lparr>slope := - 1\<rparr>
               else if CC w = 0 then w\<lparr>slope := 1\<rparr>
               else w);
          w = (if i w = TOP_CNT then w\<lparr>CC := CC w + slope w, i := 0\<rparr> else w);
          h = (if i w < CC w then gpio_write_bit port pin 1 h
               else gpio_write_bit port pin 0 h);
          w = w\<lparr>i := i w + 1\<rparr>
      in (w, h))"

text \<open>The \<^verbatim>\<open>while (1)\<close> of lines 164--182: it has no \<^verbatim>\<open>break\<close> and no
  \<^verbatim>\<open>return\<close>, so the only way out is the end of the fuel.\<close>

fun throb_loop :: "gpio_dev \<Rightarrow> nat \<Rightarrow> nat \<Rightarrow> waveform_state \<times> hw \<Rightarrow> outcome" where
  "throb_loop port pin 0 s = Still_running (snd s)"
| "throb_loop port pin (Suc fuel) s = throb_loop port pin fuel (throb_body port pin s)"

text \<open>The \<^verbatim>\<open>while (1) ;\<close> of lines 185--186.\<close>

fun idle_loop :: "nat \<Rightarrow> hw \<Rightarrow> outcome" where
  "idle_loop 0 h = Still_running h"
| "idle_loop (Suc fuel) h = idle_loop fuel h"

text \<open>The first case is the build with \<^verbatim>\<open>HAVE_ERROR_LED\<close>, where both macros are
  defined; every other case is the build without it.\<close>

definition throb :: "config \<Rightarrow> nat \<Rightarrow> hw \<Rightarrow> outcome" where
  "throb cfg fuel h =
     (case (ERROR_LED_PORT cfg, ERROR_LED_PIN cfg) of
        (Some port, Some pin) \<Rightarrow>
          throb_loop port pin fuel (throb_init, gpio_set_mode port pin GPIO_OUTPUT_PP h)
      | _ \<Rightarrow> idle_loop fuel h)"

text \<open>The state at the head of the loop after \<open>n\<close> iterations, the local variables
  included.\<close>

definition throb_at :: "gpio_dev \<Rightarrow> nat \<Rightarrow> nat \<Rightarrow> waveform_state \<times> hw \<Rightarrow> waveform_state \<times> hw" where
  "throb_at port pin n s = (throb_body port pin ^^ n) s"

subsection \<open>\<^verbatim>\<open>__error\<close>, lines 69--89\<close>

text \<open>Lines 71--87, the calls before \<^verbatim>\<open>throb()\<close>.\<close>

definition quiesce :: "hw \<Rightarrow> hw" where
  "quiesce h =
     (let h = nvic_irq_disable_all h;
          h = timer_disable_all h;
          h = adc_disable_all h;
          h = usart_disable_all h;
          h = nvic_irq_enable NVIC_USB_HP_CAN_TX h;
          h = nvic_irq_enable NVIC_USB_LP_CAN_RX0 h;
          h = nvic_globalirq_enable h
      in h)"

definition uu_error :: "config \<Rightarrow> nat \<Rightarrow> hw \<Rightarrow> outcome" where
  "uu_error cfg fuel h = throb cfg fuel (quiesce h)"

subsection \<open>\<^verbatim>\<open>_enable_error_usart\<close>, \<^verbatim>\<open>_fail\<close>, \<^verbatim>\<open>__assert_func\<close> and \<^verbatim>\<open>abort\<close>\<close>

definition u_enable_error_usart :: "config \<Rightarrow> hw \<Rightarrow> hw" where
  "u_enable_error_usart cfg h =
     (let h = gpio_set_mode (ERROR_TX_PORT cfg) (ERROR_TX_PIN cfg) GPIO_AF_OUTPUT_PP h;
          h = usart_init (ERROR_USART cfg) h;
          h = usart_set_baud_rate (ERROR_USART cfg) (ERROR_USART_CLK_SPEED cfg) (ERROR_USART_BAUD cfg) h
      in h)"

text \<open>Lines 111--121 of \<^verbatim>\<open>_fail\<close>, the calls before \<^verbatim>\<open>__error()\<close>.\<close>

definition fail_report :: "config \<Rightarrow> string \<Rightarrow> int32 \<Rightarrow> string \<Rightarrow> hw \<Rightarrow> hw" where
  "fail_report cfg file line exp h =
     (let h = u_enable_error_usart cfg h;
          h = usart_putstr (ERROR_USART cfg) ''ERROR: FAILED ASSERT('' h;
          h = usart_putstr (ERROR_USART cfg) exp h;
          h = usart_putstr (ERROR_USART cfg) ''): '' h;
          h = usart_putstr (ERROR_USART cfg) file h;
          h = usart_putstr (ERROR_USART cfg) '': '' h;
          h = usart_putudec (ERROR_USART cfg) line h;
          h = usart_putc (ERROR_USART cfg) (CHR 0x0A) h;
          h = usart_putc (ERROR_USART cfg) (CHR 0x0D) h
      in h)"

definition u_fail :: "config \<Rightarrow> string \<Rightarrow> int32 \<Rightarrow> string \<Rightarrow> nat \<Rightarrow> hw \<Rightarrow> outcome" where
  "u_fail cfg file line exp fuel h = uu_error cfg fuel (fail_report cfg file line exp h)"

definition uu_assert_func :: "config \<Rightarrow> string \<Rightarrow> int32 \<Rightarrow> string \<Rightarrow> string \<Rightarrow> nat \<Rightarrow> hw \<Rightarrow> outcome" where
  "uu_assert_func cfg file line method expression fuel h = u_fail cfg file line expression fuel h"

text \<open>Lines 142--145 of \<^verbatim>\<open>abort\<close>, the calls before \<^verbatim>\<open>__error()\<close>.\<close>

definition abort_report :: "config \<Rightarrow> hw \<Rightarrow> hw" where
  "abort_report cfg h =
     (let h = u_enable_error_usart cfg h;
          h = usart_putstr (ERROR_USART cfg) (''ERROR: PROGRAM ABORTED VIA abort()'' @ [CHR 0x0A, CHR 0x0D]) h
      in h)"

definition abort :: "config \<Rightarrow> nat \<Rightarrow> hw \<Rightarrow> outcome" where
  "abort cfg fuel h = uu_error cfg fuel (abort_report cfg h)"


subsection \<open>Auxiliary definitions for the proofs\<close>

text \<open>The calls that go to the digital I/O, and the calls that write to a USART.\<close>

fun is_gpio_call :: "call \<Rightarrow> bool" where
  "is_gpio_call (Gpio_set_mode dev pin mode) = True"
| "is_gpio_call (Gpio_write_bit dev pin val) = True"
| "is_gpio_call c = False"

fun is_usart_write :: "call \<Rightarrow> bool" where
  "is_usart_write (Usart_putstr dev str) = True"
| "is_usart_write (Usart_putudec dev val) = True"
| "is_usart_write (Usart_putc dev c) = True"
| "is_usart_write c = False"

text \<open>
  What one iteration of the loop of \<^verbatim>\<open>throb\<close> does to the local variables
  (\<open>throb_body\<close> without the hardware), and the slope that lines 165--169 choose.
\<close>

definition wave_step :: "waveform_state \<Rightarrow> waveform_state" where
  "wave_step w =
     (let w = (if CC w = TOP_CNT then w\<lparr>slope := - 1\<rparr>
               else if CC w = 0 then w\<lparr>slope := 1\<rparr>
               else w);
          w = (if i w = TOP_CNT then w\<lparr>CC := CC w + slope w, i := 0\<rparr> else w)
      in w\<lparr>i := i w + 1\<rparr>)"

definition adj :: "uint32 \<Rightarrow> int32 \<Rightarrow> int32" where
  "adj c s = (if c = TOP_CNT then - 1 else if c = 0 then 1 else s)"

text \<open>The triangle wave with ceiling 512 and period 1024.\<close>

definition tri :: "nat \<Rightarrow> nat" where
  "tri k = (if k \<le> 512 then k else 1024 - k)"

section \<open>Properties\<close>

subsection \<open>Drivers and decimal digits\<close>

lemmas driver_defs = nvic_irq_disable_all_def timer_disable_all_def adc_disable_all_def
  usart_disable_all_def nvic_irq_enable_def nvic_globalirq_enable_def gpio_set_mode_def
  gpio_write_bit_def usart_init_def usart_set_baud_rate_def usart_putc_def usart_putstr_def
  usart_putudec_def logged_def

lemma fold_transmit: "fold (\<lambda>c. transmit dev [c]) s h = transmit dev s h"
proof (induction s arbitrary: h)
  case Nil
  show ?case by (simp add: transmit_def)
next
  case (Cons c s)
  show ?case by (simp add: Cons.IH) (simp add: transmit_def)
qed

lemma of_char_digit: "d < 10 \<Longrightarrow> of_char (char_of (48 + d)) = (48 + d :: nat)"
  by (simp add: of_char_of)

lemma digit_in_digits: "(d :: nat) < 10 \<Longrightarrow> char_of (48 + d) \<in> set ''0123456789''"
proof -
  assume "d < 10"
  then have "d \<in> {0, 1, 2, 3, 4, 5, 6, 7, 8, 9}" by auto
  then show ?thesis by (elim insertE emptyE) (simp_all add: char_of_def bit_Suc_0_iff)
qed

lemma digits_value_snoc: "digits_value (s @ [c]) = 10 * digits_value s + (of_char c - 48)"
  by (simp add: digits_value_def)

lemma udec_0: "udec 0 = ''0''"
  by (simp add: udec.simps char_of_def bit_Suc_0_iff)

lemma udec_42: "udec 42 = ''42''"
  by (simp add: udec.simps char_of_def bit_Suc_0_iff)

lemma udec_nonempty: "udec n \<noteq> []"
  by (subst udec.simps) simp

lemma udec_value: "digits_value (udec n) = n"
proof (induction n rule: udec.induct)
  case (1 n)
  show ?case
  proof (cases "n < 10")
    case True
    then show ?thesis by (subst udec.simps) (simp add: digits_value_def of_char_digit)
  next
    case False
    with 1 show ?thesis
      by (subst udec.simps) (simp add: digits_value_snoc of_char_digit)
  qed
qed

lemma udec_digits: "set (udec n) \<subseteq> set ''0123456789''"
proof (induction n rule: udec.induct)
  case (1 n)
  show ?case
  proof (cases "n < 10")
    case True
    then show ?thesis using digit_in_digits [of n] by (subst udec.simps) simp
  next
    case False
    have "n mod 10 < 10" by simp
    then have "char_of (48 + n mod 10) \<in> set ''0123456789''" by (rule digit_in_digits)
    with 1 False show ?thesis by (subst udec.simps) simp
  qed
qed

lemma udec_hd: "(hd (udec n) = CHR ''0'') = (n = 0)"
proof (induction n rule: udec.induct)
  case (1 n)
  show ?case
  proof (cases "n < 10")
    case True
    then have "n \<in> {0, 1, 2, 3, 4, 5, 6, 7, 8, 9}" by auto
    then show ?thesis by (subst udec.simps) (auto simp: char_of_def bit_Suc_0_iff)
  next
    case False
    with 1 show ?thesis
      by (subst udec.simps) (simp add: udec_nonempty)
  qed
qed

lemma udec_eq_0: "(udec n = ''0'') = (n = 0)"
proof
  assume "udec n = ''0''"
  then have "digits_value (udec n) = digits_value ''0''" by simp
  then show "n = 0" by (simp add: udec_value) (simp add: digits_value_def)
next
  assume "n = 0"
  then show "udec n = ''0''" by (simp add: udec_0)
qed

subsection \<open>The straight-line parts\<close>

lemma quiesce_oplog:
  "oplog (quiesce h) = oplog h @
     [Nvic_irq_disable_all, Timer_disable_all, Adc_disable_all, Usart_disable_all,
      Nvic_irq_enable NVIC_USB_HP_CAN_TX, Nvic_irq_enable NVIC_USB_LP_CAN_RX0,
      Nvic_globalirq_enable]"
  by (simp add: quiesce_def driver_defs)

lemma quiesce_fields:
  "nvic_enabled (quiesce h) = {NVIC_USB_HP_CAN_TX, NVIC_USB_LP_CAN_RX0}"
  "timers_enabled (quiesce h) = {}"
  "adcs_enabled (quiesce h) = {}"
  "usarts_enabled (quiesce h) = {}"
  "globalirq (quiesce h) = True"
  "usart_tx (quiesce h) = usart_tx h"
  by (auto simp add: quiesce_def driver_defs)

lemma fail_report_tx:
  "usart_tx (fail_report cfg file line exp h) =
     (usart_tx h)(ERROR_USART cfg := usart_tx h (ERROR_USART cfg) @
        ''ERROR: FAILED ASSERT('' @ exp @ ''): '' @ file @ '': '' @ udec (unat line) @
        [CHR 0x0A, CHR 0x0D])"
  by (simp add: fail_report_def u_enable_error_usart_def driver_defs fold_transmit transmit_def)

lemma fail_report_oplog:
  "oplog (fail_report cfg file line exp h) = oplog h @
     [Gpio_set_mode (ERROR_TX_PORT cfg) (ERROR_TX_PIN cfg) GPIO_AF_OUTPUT_PP,
      Usart_init (ERROR_USART cfg),
      Usart_set_baud_rate (ERROR_USART cfg) (ERROR_USART_CLK_SPEED cfg) (ERROR_USART_BAUD cfg),
      Usart_putstr (ERROR_USART cfg) ''ERROR: FAILED ASSERT('',
      Usart_putstr (ERROR_USART cfg) exp,
      Usart_putstr (ERROR_USART cfg) ''): '',
      Usart_putstr (ERROR_USART cfg) file,
      Usart_putstr (ERROR_USART cfg) '': '',
      Usart_putudec (ERROR_USART cfg) line,
      Usart_putc (ERROR_USART cfg) (CHR 0x0A),
      Usart_putc (ERROR_USART cfg) (CHR 0x0D)]"
  by (simp add: fail_report_def u_enable_error_usart_def driver_defs fold_transmit transmit_def)

lemma abort_report_tx:
  "usart_tx (abort_report cfg h) =
     (usart_tx h)(ERROR_USART cfg := usart_tx h (ERROR_USART cfg) @
        ''ERROR: PROGRAM ABORTED VIA abort()'' @ [CHR 0x0A, CHR 0x0D])"
  by (simp add: abort_report_def u_enable_error_usart_def driver_defs fold_transmit transmit_def)

lemma abort_report_oplog:
  "oplog (abort_report cfg h) = oplog h @
     [Gpio_set_mode (ERROR_TX_PORT cfg) (ERROR_TX_PIN cfg) GPIO_AF_OUTPUT_PP,
      Usart_init (ERROR_USART cfg),
      Usart_set_baud_rate (ERROR_USART cfg) (ERROR_USART_CLK_SPEED cfg) (ERROR_USART_BAUD cfg),
      Usart_putstr (ERROR_USART cfg) (''ERROR: PROGRAM ABORTED VIA abort()'' @ [CHR 0x0A, CHR 0x0D])]"
  by (simp add: abort_report_def u_enable_error_usart_def driver_defs fold_transmit transmit_def)

subsection \<open>The loops touch the digital I/O only\<close>

lemma throb_loop_at: "throb_loop port pin fuel s = Still_running (snd (throb_at port pin fuel s))"
  by (induction fuel arbitrary: s) (simp_all add: throb_at_def funpow_swap1)

lemma idle_loop_eq: "idle_loop fuel h = Still_running h"
  by (induction fuel) simp_all

lemma throb_eq:
  "throb cfg fuel h =
     (case (ERROR_LED_PORT cfg, ERROR_LED_PIN cfg) of
        (Some port, Some pin) \<Rightarrow>
          Still_running (snd (throb_at port pin fuel (throb_init, gpio_set_mode port pin GPIO_OUTPUT_PP h)))
      | _ \<Rightarrow> Still_running h)"
  by (simp add: throb_def throb_loop_at idle_loop_eq split: option.splits)

lemma throb_body_frame:
  "nvic_enabled (snd (throb_body port pin s)) = nvic_enabled (snd s)"
  "globalirq (snd (throb_body port pin s)) = globalirq (snd s)"
  "timers_enabled (snd (throb_body port pin s)) = timers_enabled (snd s)"
  "adcs_enabled (snd (throb_body port pin s)) = adcs_enabled (snd s)"
  "usarts_enabled (snd (throb_body port pin s)) = usarts_enabled (snd s)"
  "usart_tx (snd (throb_body port pin s)) = usart_tx (snd s)"
  by (simp_all add: throb_body_def Let_def gpio_write_bit_def logged_def)

lemma throb_at_frame:
  "nvic_enabled (snd (throb_at port pin n s)) = nvic_enabled (snd s)"
  "globalirq (snd (throb_at port pin n s)) = globalirq (snd s)"
  "timers_enabled (snd (throb_at port pin n s)) = timers_enabled (snd s)"
  "adcs_enabled (snd (throb_at port pin n s)) = adcs_enabled (snd s)"
  "usarts_enabled (snd (throb_at port pin n s)) = usarts_enabled (snd s)"
  "usart_tx (snd (throb_at port pin n s)) = usart_tx (snd s)"
  by (induction n) (simp_all add: throb_at_def throb_body_frame)

lemma throb_frame:
  "nvic_enabled (state_of (throb cfg fuel h)) = nvic_enabled h"
  "globalirq (state_of (throb cfg fuel h)) = globalirq h"
  "timers_enabled (state_of (throb cfg fuel h)) = timers_enabled h"
  "adcs_enabled (state_of (throb cfg fuel h)) = adcs_enabled h"
  "usarts_enabled (state_of (throb cfg fuel h)) = usarts_enabled h"
  "usart_tx (state_of (throb cfg fuel h)) = usart_tx h"
  by (simp_all add: throb_eq throb_at_frame gpio_set_mode_def logged_def split: option.splits)

lemma throb_body_oplog:
  "\<exists>c. oplog (snd (throb_body port pin s)) = oplog (snd s) @ [c] \<and> is_gpio_call c"
  by (simp add: throb_body_def Let_def gpio_write_bit_def logged_def)

lemma throb_at_oplog:
  "\<exists>r. oplog (snd (throb_at port pin n s)) = oplog (snd s) @ r \<and> list_all is_gpio_call r"
proof (induction n)
  case 0
  show ?case by (simp add: throb_at_def)
next
  case (Suc n)
  then obtain r where r: "oplog (snd (throb_at port pin n s)) = oplog (snd s) @ r"
      "list_all is_gpio_call r"
    by blast
  obtain c where c:
      "oplog (snd (throb_body port pin (throb_at port pin n s))) = oplog (snd (throb_at port pin n s)) @ [c]"
      "is_gpio_call c"
    using throb_body_oplog by blast
  have "oplog (snd (throb_at port pin (Suc n) s)) = oplog (snd s) @ (r @ [c])"
    using r c by (simp add: throb_at_def)
  moreover have "list_all is_gpio_call (r @ [c])" using r c by simp
  ultimately show ?case by blast
qed

lemma throb_oplog:
  "\<exists>r. oplog (state_of (throb cfg fuel h)) = oplog h @ r \<and> list_all is_gpio_call r"
proof (cases "ERROR_LED_PORT cfg")
  case None
  then show ?thesis by (simp add: throb_eq)
next
  case port: (Some port)
  show ?thesis
  proof (cases "ERROR_LED_PIN cfg")
    case None
    with port show ?thesis by (simp add: throb_eq)
  next
    case pin: (Some pin)
    obtain r where r:
        "oplog (snd (throb_at port pin fuel (throb_init, gpio_set_mode port pin GPIO_OUTPUT_PP h)))
           = oplog (gpio_set_mode port pin GPIO_OUTPUT_PP h) @ r"
        "list_all is_gpio_call r"
      using throb_at_oplog [of port pin fuel "(throb_init, gpio_set_mode port pin GPIO_OUTPUT_PP h)"]
      by auto
    have "oplog (state_of (throb cfg fuel h)) = oplog h @ (Gpio_set_mode port pin GPIO_OUTPUT_PP # r)"
      using r port pin by (simp add: throb_eq gpio_set_mode_def logged_def)
    moreover have "list_all is_gpio_call (Gpio_set_mode port pin GPIO_OUTPUT_PP # r)"
      using r by simp
    ultimately show ?thesis by blast
  qed
qed

lemma uu_error_oplog:
  "\<exists>r. oplog (state_of (uu_error cfg fuel h)) = oplog h @
      [Nvic_irq_disable_all, Timer_disable_all, Adc_disable_all, Usart_disable_all,
       Nvic_irq_enable NVIC_USB_HP_CAN_TX, Nvic_irq_enable NVIC_USB_LP_CAN_RX0,
       Nvic_globalirq_enable] @ r \<and> list_all is_gpio_call r"
  using throb_oplog [of cfg fuel "quiesce h"] by (simp add: uu_error_def quiesce_oplog)

lemma gpio_not_usart_write: "list_all is_gpio_call r \<Longrightarrow> filter is_usart_write r = []"
proof (induction r)
  case Nil
  show ?case by simp
next
  case (Cons c r)
  then show ?case by (cases c) simp_all
qed


section \<open>The claims about the fault path\<close>

text \<open>
  C1. For every file, line and expression, whatever the fuel and the hardware
  state at the call, \<^verbatim>\<open>_fail\<close> adds to what the error USART has sent exactly
  \<^verbatim>\<open>ERROR: FAILED ASSERT(\<close>, the expression, \<^verbatim>\<open>): \<close>, the file, \<^verbatim>\<open>: \<close>, the
  line in decimal, a line feed and a carriage return, and sends nothing on any
  other channel. The line is read as an unsigned 32-bit value; its digits are
  decimal digits, denote that value and start with 0 only when the whole
  rendering is \<^verbatim>\<open>0\<close>. For \<^verbatim>\<open>main.c\<close>, 42 and \<^verbatim>\<open>x>0\<close> the message is
  \<^verbatim>\<open>ERROR: FAILED ASSERT(x>0): main.c: 42\<close>, line feed, carriage return.
\<close>

theorem fail_transmits_message:
  "usart_tx (state_of (u_fail cfg file line exp fuel h)) =
     (usart_tx h)(ERROR_USART cfg := usart_tx h (ERROR_USART cfg) @
        ''ERROR: FAILED ASSERT('' @ exp @ ''): '' @ file @ '': '' @ udec (unat line) @
        [CHR 0x0A, CHR 0x0D]) \<and>
   digits_value (udec (unat line)) = unat line \<and>
   set (udec (unat line)) \<subseteq> set ''0123456789'' \<and>
   (hd (udec (unat line)) = CHR ''0'') = (udec (unat line) = ''0'') \<and>
   usart_tx (state_of (u_fail cfg ''main.c'' 42 ''x>0'' fuel h)) (ERROR_USART cfg) =
     usart_tx h (ERROR_USART cfg) @ ''ERROR: FAILED ASSERT(x>0): main.c: 42'' @ [CHR 0x0A, CHR 0x0D]"
proof -
  have tx: "usart_tx (state_of (u_fail cfg f l e fuel h)) = usart_tx (fail_report cfg f l e h)"
    for f l e
    by (simp add: u_fail_def uu_error_def throb_frame quiesce_fields)
  have "(hd (udec (unat line)) = CHR ''0'') = (udec (unat line) = ''0'')"
    by (simp add: udec_hd udec_eq_0)
  moreover have "usart_tx (fail_report cfg ''main.c'' 42 ''x>0'' h) (ERROR_USART cfg) =
     usart_tx h (ERROR_USART cfg) @ ''ERROR: FAILED ASSERT(x>0): main.c: 42'' @ [CHR 0x0A, CHR 0x0D]"
    by (simp add: fail_report_tx udec_42)
  moreover have "set (udec (unat line)) \<subseteq> set ''0123456789''"
    by (rule udec_digits)
  ultimately show ?thesis
    by (simp add: tx fail_report_tx udec_value)
qed

text \<open>
  C2. \<^verbatim>\<open>__error\<close> makes its seven driver calls in the order: all interrupt
  sources off, all timers off, all ADCs off, all USARTs off, interrupt line
  \<^verbatim>\<open>NVIC_USB_HP_CAN_TX\<close> on, interrupt line \<^verbatim>\<open>NVIC_USB_LP_CAN_RX0\<close> on,
  interrupts globally on; every call after them goes to the digital I/O. From
  any hardware state and for any fuel, the state it leaves has exactly those two
  interrupt lines enabled, no timer, ADC or USART enabled, and interrupts
  globally enabled.
\<close>

theorem error_quiesces_in_order:
  "oplog (quiesce h) = oplog h @
     [Nvic_irq_disable_all, Timer_disable_all, Adc_disable_all, Usart_disable_all,
      Nvic_irq_enable NVIC_USB_HP_CAN_TX, Nvic_irq_enable NVIC_USB_LP_CAN_RX0,
      Nvic_globalirq_enable] \<and>
   prefix (oplog (quiesce h)) (oplog (state_of (uu_error cfg fuel h))) \<and>
   list_all is_gpio_call (drop (length (oplog (quiesce h))) (oplog (state_of (uu_error cfg fuel h)))) \<and>
   nvic_enabled (state_of (uu_error cfg fuel h)) = {NVIC_USB_HP_CAN_TX, NVIC_USB_LP_CAN_RX0} \<and>
   timers_enabled (state_of (uu_error cfg fuel h)) = {} \<and>
   adcs_enabled (state_of (uu_error cfg fuel h)) = {} \<and>
   usarts_enabled (state_of (uu_error cfg fuel h)) = {} \<and>
   globalirq (state_of (uu_error cfg fuel h)) = True"
proof -
  obtain r where r: "oplog (state_of (uu_error cfg fuel h)) = oplog (quiesce h) @ r"
      "list_all is_gpio_call r"
    using throb_oplog [of cfg fuel "quiesce h"] by (auto simp add: uu_error_def)
  have "prefix (oplog (quiesce h)) (oplog (state_of (uu_error cfg fuel h)))"
    by (simp add: r(1))
  moreover have "list_all is_gpio_call
      (drop (length (oplog (quiesce h))) (oplog (state_of (uu_error cfg fuel h))))"
    by (simp add: r)
  ultimately show ?thesis
    by (simp add: quiesce_oplog) (simp add: uu_error_def throb_frame quiesce_fields)
qed

text \<open>
  C5. Whatever the configuration, the fuel and the hardware state at the call,
  \<^verbatim>\<open>abort\<close> adds to what the error USART has sent exactly
  \<^verbatim>\<open>ERROR: PROGRAM ABORTED VIA abort()\<close>, line feed, carriage return, and sends
  nothing on any other channel; its only write to a USART is the one
  \<^verbatim>\<open>usart_putstr\<close> of that string.
\<close>

theorem abort_transmits_message:
  "usart_tx (state_of (abort cfg fuel h)) =
     (usart_tx h)(ERROR_USART cfg := usart_tx h (ERROR_USART cfg) @
        ''ERROR: PROGRAM ABORTED VIA abort()'' @ [CHR 0x0A, CHR 0x0D]) \<and>
   filter is_usart_write (drop (length (oplog h)) (oplog (state_of (abort cfg fuel h)))) =
     [Usart_putstr (ERROR_USART cfg) (''ERROR: PROGRAM ABORTED VIA abort()'' @ [CHR 0x0A, CHR 0x0D])]"
proof -
  obtain r where r: "oplog (state_of (abort cfg fuel h)) =
      oplog (abort_report cfg h) @
      [Nvic_irq_disable_all, Timer_disable_all, Adc_disable_all, Usart_disable_all,
       Nvic_irq_enable NVIC_USB_HP_CAN_TX, Nvic_irq_enable NVIC_USB_LP_CAN_RX0,
       Nvic_globalirq_enable] @ r" "list_all is_gpio_call r"
    using uu_error_oplog [of cfg fuel "abort_report cfg h"] by (auto simp add: abort_def)
  have "usart_tx (state_of (abort cfg fuel h)) = usart_tx (abort_report cfg h)"
    by (simp add: abort_def uu_error_def throb_frame quiesce_fields)
  then show ?thesis
    using gpio_not_usart_write [OF r(2)]
    by (simp add: abort_report_tx r(1) abort_report_oplog)
qed

text \<open>
  C7. In the calls that \<^verbatim>\<open>_fail\<close> makes, everything before the first
  \<^verbatim>\<open>usart_disable_all\<close> is: the three calls that set up the error USART, the
  eight writes of the message on the error USART, and the three disabling calls
  that come first in \<^verbatim>\<open>__error\<close>; \<^verbatim>\<open>usart_disable_all\<close> is called; and from
  that call on there is no write to any USART. The same holds for \<^verbatim>\<open>abort\<close>
  with its single write. This is so for any fuel and any hardware state at the
  call.
\<close>

theorem report_precedes_usart_disable:
  "takeWhile (\<lambda>c. c \<noteq> Usart_disable_all)
     (drop (length (oplog h)) (oplog (state_of (u_fail cfg file line exp fuel h)))) =
     [Gpio_set_mode (ERROR_TX_PORT cfg) (ERROR_TX_PIN cfg) GPIO_AF_OUTPUT_PP,
      Usart_init (ERROR_USART cfg),
      Usart_set_baud_rate (ERROR_USART cfg) (ERROR_USART_CLK_SPEED cfg) (ERROR_USART_BAUD cfg),
      Usart_putstr (ERROR_USART cfg) ''ERROR: FAILED ASSERT('',
      Usart_putstr (ERROR_USART cfg) exp,
      Usart_putstr (ERROR_USART cfg) ''): '',
      Usart_putstr (ERROR_USART cfg) file,
      Usart_putstr (ERROR_USART cfg) '': '',
      Usart_putudec (ERROR_USART cfg) line,
      Usart_putc (ERROR_USART cfg) (CHR 0x0A),
      Usart_putc (ERROR_USART cfg) (CHR 0x0D),
      Nvic_irq_disable_all, Timer_disable_all, Adc_disable_all] \<and>
   Usart_disable_all \<in>
     set (drop (length (oplog h)) (oplog (state_of (u_fail cfg file line exp fuel h)))) \<and>
   filter is_usart_write (dropWhile (\<lambda>c. c \<noteq> Usart_disable_all)
     (drop (length (oplog h)) (oplog (state_of (u_fail cfg file line exp fuel h))))) = [] \<and>
   takeWhile (\<lambda>c. c \<noteq> Usart_disable_all)
     (drop (length (oplog h)) (oplog (state_of (abort cfg fuel h)))) =
     [Gpio_set_mode (ERROR_TX_PORT cfg) (ERROR_TX_PIN cfg) GPIO_AF_OUTPUT_PP,
      Usart_init (ERROR_USART cfg),
      Usart_set_baud_rate (ERROR_USART cfg) (ERROR_USART_CLK_SPEED cfg) (ERROR_USART_BAUD cfg),
      Usart_putstr (ERROR_USART cfg) (''ERROR: PROGRAM ABORTED VIA abort()'' @ [CHR 0x0A, CHR 0x0D]),
      Nvic_irq_disable_all, Timer_disable_all, Adc_disable_all] \<and>
   Usart_disable_all \<in> set (drop (length (oplog h)) (oplog (state_of (abort cfg fuel h)))) \<and>
   filter is_usart_write (dropWhile (\<lambda>c. c \<noteq> Usart_disable_all)
     (drop (length (oplog h)) (oplog (state_of (abort cfg fuel h))))) = []"
proof -
  obtain r where r: "oplog (state_of (u_fail cfg file line exp fuel h)) =
      oplog (fail_report cfg file line exp h) @
      [Nvic_irq_disable_all, Timer_disable_all, Adc_disable_all, Usart_disable_all,
       Nvic_irq_enable NVIC_USB_HP_CAN_TX, Nvic_irq_enable NVIC_USB_LP_CAN_RX0,
       Nvic_globalirq_enable] @ r" "list_all is_gpio_call r"
    using uu_error_oplog [of cfg fuel "fail_report cfg file line exp h"]
    by (auto simp add: u_fail_def)
  obtain r' where r': "oplog (state_of (abort cfg fuel h)) =
      oplog (abort_report cfg h) @
      [Nvic_irq_disable_all, Timer_disable_all, Adc_disable_all, Usart_disable_all,
       Nvic_irq_enable NVIC_USB_HP_CAN_TX, Nvic_irq_enable NVIC_USB_LP_CAN_RX0,
       Nvic_globalirq_enable] @ r'" "list_all is_gpio_call r'"
    using uu_error_oplog [of cfg fuel "abort_report cfg h"] by (auto simp add: abort_def)
  show ?thesis
    using gpio_not_usart_write [OF r(2)] gpio_not_usart_write [OF r'(2)]
    by (simp add: r(1) r'(1) fail_report_oplog abort_report_oplog)
qed

text \<open>
  C8. From any hardware state, the seven calls of \<^verbatim>\<open>__error\<close> made twice in
  succession leave the peripherals as the seven calls made once do.
\<close>

theorem quiesce_idempotent:
  "periph (quiesce (quiesce h)) = periph (quiesce h)"
  by (simp add: quiesce_def driver_defs periph_def insert_commute)

text \<open>
  C9. From any hardware state, \<^verbatim>\<open>_enable_error_usart\<close> called twice leaves the
  peripherals as one call does. One call makes the three calls
  \<^verbatim>\<open>gpio_set_mode\<close>, \<^verbatim>\<open>usart_init\<close>, \<^verbatim>\<open>usart_set_baud_rate\<close> in this order; after
  it the transmit pin is in mode \<^verbatim>\<open>GPIO_AF_OUTPUT_PP\<close>, the error USART is
  initialised, and its clock and baud rate are those of the build.
\<close>

theorem enable_error_usart_idempotent:
  "periph (u_enable_error_usart cfg (u_enable_error_usart cfg h)) =
     periph (u_enable_error_usart cfg h) \<and>
   oplog (u_enable_error_usart cfg h) = oplog h @
     [Gpio_set_mode (ERROR_TX_PORT cfg) (ERROR_TX_PIN cfg) GPIO_AF_OUTPUT_PP,
      Usart_init (ERROR_USART cfg),
      Usart_set_baud_rate (ERROR_USART cfg) (ERROR_USART_CLK_SPEED cfg) (ERROR_USART_BAUD cfg)] \<and>
   gpio_mode (u_enable_error_usart cfg h) (ERROR_TX_PORT cfg, ERROR_TX_PIN cfg) =
     Some GPIO_AF_OUTPUT_PP \<and>
   ERROR_USART cfg \<in> usarts_initialized (u_enable_error_usart cfg h) \<and>
   usart_baud (u_enable_error_usart cfg h) (ERROR_USART cfg) =
     Some (ERROR_USART_CLK_SPEED cfg, ERROR_USART_BAUD cfg)"
  by (simp add: u_enable_error_usart_def driver_defs periph_def)

text \<open>
  C10. \<^verbatim>\<open>__assert_func\<close> does not use its argument \<^verbatim>\<open>method\<close>: with the same
  file, line and expression, two calls that differ in \<^verbatim>\<open>method\<close> only have the
  same outcome, which is that of \<^verbatim>\<open>_fail\<close>: the same characters sent, the same
  driver calls, the same peripheral state.
\<close>

theorem assert_func_ignores_method:
  "uu_assert_func cfg file line m1 expression fuel h =
     uu_assert_func cfg file line m2 expression fuel h \<and>
   uu_assert_func cfg file line m1 expression fuel h = u_fail cfg file line expression fuel h"
  by (simp add: uu_assert_func_def)


section \<open>The waveform of \<^verbatim>\<open>throb\<close>\<close>

subsection \<open>The local variables on their own\<close>

lemma fst_throb_body: "fst (throb_body port pin s) = wave_step (fst s)"
  by (simp add: throb_body_def wave_step_def Let_def)

lemma fst_throb_at: "fst (throb_at port pin n s) = (wave_step ^^ n) (fst s)"
  by (induction n) (simp_all add: throb_at_def fst_throb_body)

lemma wave_step_changes: "i (wave_step w) \<noteq> i w"
  by (simp add: wave_step_def Let_def TOP_CNT_def)

lemma slope_changes_at_bounds: "slope (wave_step w) = slope w \<or> CC w = 0 \<or> CC w = TOP_CNT"
  by (simp add: wave_step_def Let_def)

lemma adj_idem: "adj c (adj c s) = adj c s"
  by (simp add: adj_def)

lemma wave_step_low:
  "unat (i w) < 512 \<Longrightarrow> wave_step w = w\<lparr>slope := adj (CC w) (slope w), i := i w + 1\<rparr>"
  by (auto simp add: wave_step_def adj_def TOP_CNT_def Let_def)

lemma wave_step_top:
  "i w = 512 \<Longrightarrow>
   wave_step w = w\<lparr>slope := adj (CC w) (slope w), CC := CC w + adj (CC w) (slope w), i := 1\<rparr>"
  by (auto simp add: wave_step_def adj_def TOP_CNT_def Let_def)

subsection \<open>Unsigned 32-bit arithmetic below the ceiling\<close>

lemma word_eq_unat_512: "((x :: uint32) = 512) = (unat x = 512)"
  by (simp add: word_unat_eq_iff)

lemma word_eq_unat_0: "((x :: uint32) = 0) = (unat x = 0)"
  by (simp add: unat_eq_0)

lemma unat_inc: "unat (x :: uint32) \<le> 512 \<Longrightarrow> unat (x + 1) = unat x + 1"
  by (simp add: unat_word_ariths)

lemma unat_dec: "(x :: uint32) \<noteq> 0 \<Longrightarrow> unat (x - 1) = unat x - 1"
  by (rule unat_minus_one)

lemma tri_eq_0: "k < 1024 \<Longrightarrow> (tri k = 0) = (k = 0)"
  by (simp add: tri_def)

subsection \<open>The amplitude stays within its bounds\<close>

lemma wave_inv_step:
  assumes "unat (CC w) \<le> 512" and "slope w = 1 \<or> slope w = - 1"
  shows "unat (CC (wave_step w)) \<le> 512 \<and> (slope (wave_step w) = 1 \<or> slope (wave_step w) = - 1)"
proof -
  consider (top) "CC w = 512" | (zero) "CC w = 0" | (mid) "CC w \<noteq> 512" "CC w \<noteq> 0"
    by blast
  then show ?thesis
  proof cases
    case top
    then show ?thesis by (simp add: wave_step_def Let_def TOP_CNT_def)
  next
    case zero
    then show ?thesis by (simp add: wave_step_def Let_def TOP_CNT_def)
  next
    case mid
    then have "unat (CC w) \<noteq> 512" "unat (CC w) \<noteq> 0"
      by (simp_all add: word_eq_unat_512 [symmetric] word_eq_unat_0 [symmetric])
    with assms(1) have b: "unat (CC w) < 512" "0 < unat (CC w)" by simp_all
    have "unat (CC w + 1) \<le> 512" using b by (simp add: unat_inc)
    moreover have "unat (CC w - 1) \<le> 512" using b mid by (simp add: unat_dec)
    ultimately show ?thesis using assms mid
      by (auto simp add: wave_step_def Let_def TOP_CNT_def)
  qed
qed

lemma wave_inv:
  "unat (CC ((wave_step ^^ n) throb_init)) \<le> 512 \<and>
   (slope ((wave_step ^^ n) throb_init) = 1 \<or> slope ((wave_step ^^ n) throb_init) = - 1)"
proof (induction n)
  case 0
  show ?case by (simp add: throb_init_def)
next
  case (Suc n)
  then show ?case using wave_inv_step [of "(wave_step ^^ n) throb_init"] by simp
qed

text \<open>
  C3. In every state that the loop of \<^verbatim>\<open>throb\<close> reaches from \<^verbatim>\<open>CC = 0\<close>,
  \<^verbatim>\<open>slope = 1\<close>, \<^verbatim>\<open>i = 0\<close>, after any number of iterations and whatever the
  LED pin and the hardware state, \<^verbatim>\<open>CC\<close> is between 0 and \<^verbatim>\<open>TOP_CNT\<close>, which is
  512; and an iteration leaves \<^verbatim>\<open>slope\<close> as it was unless it starts with
  \<^verbatim>\<open>CC\<close> at 0 or at \<^verbatim>\<open>TOP_CNT\<close>.
\<close>

theorem throb_amplitude_bounded:
  "unat TOP_CNT = 512 \<and>
   throb_init = \<lparr>slope = 1, CC = 0, i = 0\<rparr> \<and>
   0 \<le> unat (CC (fst (throb_at port pin n (throb_init, h)))) \<and>
   CC (fst (throb_at port pin n (throb_init, h))) \<le> TOP_CNT \<and>
   (slope (fst (throb_at port pin (Suc n) (throb_init, h))) =
      slope (fst (throb_at port pin n (throb_init, h)))
    \<or> CC (fst (throb_at port pin n (throb_init, h))) = 0
    \<or> CC (fst (throb_at port pin n (throb_init, h))) = TOP_CNT)"
proof -
  have "unat (CC ((wave_step ^^ n) throb_init)) \<le> unat TOP_CNT"
    using wave_inv [of n] by (simp add: TOP_CNT_def)
  then have "CC ((wave_step ^^ n) throb_init) \<le> TOP_CNT"
    by (simp add: word_le_nat_alt)
  moreover have "slope ((wave_step ^^ Suc n) throb_init) = slope ((wave_step ^^ n) throb_init)
      \<or> CC ((wave_step ^^ n) throb_init) = 0 \<or> CC ((wave_step ^^ n) throb_init) = TOP_CNT"
    using slope_changes_at_bounds [of "(wave_step ^^ n) throb_init"] by simp
  moreover have "throb_init = \<lparr>slope = 1, CC = 0, i = 0\<rparr>"
    by (simp add: throb_init_def)
  ultimately show ?thesis
    by (simp add: fst_throb_at TOP_CNT_def del: funpow.simps)
qed

text \<open>
  C4. \<^verbatim>\<open>throb\<close> does not return, whatever the configuration, the fuel and the
  hardware state: with a LED it is still in the loop of lines 164--182 after as
  many iterations as the fuel allows, without one it is still in the loop of
  lines 185--186 with the hardware untouched. In the loop with a LED no
  iteration leaves the state as it was: the local variables after \<open>n + 1\<close>
  iterations differ from those after \<open>n\<close>.
\<close>

theorem throb_never_returns:
  "(\<forall>h'. throb cfg fuel h \<noteq> Returned h') \<and>
   throb cfg fuel h =
     (case (ERROR_LED_PORT cfg, ERROR_LED_PIN cfg) of
        (Some port, Some pin) \<Rightarrow>
          Still_running (snd (throb_at port pin fuel (throb_init, gpio_set_mode port pin GPIO_OUTPUT_PP h)))
      | _ \<Rightarrow> Still_running h) \<and>
   throb_at port pin (Suc n) s \<noteq> throb_at port pin n s \<and>
   fst (throb_at port pin (Suc n) s) \<noteq> fst (throb_at port pin n s)"
proof -
  have "\<forall>h'. throb cfg fuel h \<noteq> Returned h'"
    by (simp add: throb_eq split: option.splits)
  moreover have ne: "fst (throb_at port pin (Suc n) s) \<noteq> fst (throb_at port pin n s)"
  proof
    assume "fst (throb_at port pin (Suc n) s) = fst (throb_at port pin n s)"
    then have "wave_step ((wave_step ^^ n) (fst s)) = (wave_step ^^ n) (fst s)"
      by (simp add: fst_throb_at)
    then have "i (wave_step ((wave_step ^^ n) (fst s))) = i ((wave_step ^^ n) (fst s))"
      by simp
    then show False using wave_step_changes by blast
  qed
  moreover from ne have "throb_at port pin (Suc n) s \<noteq> throb_at port pin n s" by auto
  ultimately show ?thesis using throb_eq [of cfg fuel h] by blast
qed

subsection \<open>The shape of the waveform\<close>

text \<open>While \<open>i\<close> is below the ceiling, an iteration only counts.\<close>

lemma wave_inner:
  "unat (i w) + n \<le> 512 \<Longrightarrow>
   (wave_step ^^ n) w =
     (if n = 0 then w else w\<lparr>slope := adj (CC w) (slope w), i := i w + of_nat n\<rparr>)"
proof (induction n arbitrary: w)
  case 0
  show ?case by simp
next
  case (Suc n)
  from Suc.prems have low: "unat (i w) < 512" by simp
  let ?w = "wave_step w"
  have step: "?w = w\<lparr>slope := adj (CC w) (slope w), i := i w + 1\<rparr>"
    using low by (rule wave_step_low)
  have "unat (i ?w) = Suc (unat (i w))"
    using low by (simp add: step unat_inc)
  with Suc.prems have "unat (i ?w) + n \<le> 512" by simp
  from Suc.IH [OF this]
  have "(wave_step ^^ n) ?w =
      (if n = 0 then ?w else ?w\<lparr>slope := adj (CC ?w) (slope ?w), i := i ?w + of_nat n\<rparr>)" .
  then show ?case
    by (simp add: funpow_swap1 step adj_idem add.assoc)
qed

text \<open>From \<open>i = 1\<close>, 512 iterations move the amplitude by one step.\<close>

lemma wave_block:
  assumes "i w = 1"
  shows "(wave_step ^^ 512) w =
     w\<lparr>slope := adj (CC w) (slope w), CC := CC w + adj (CC w) (slope w), i := 1\<rparr>"
proof -
  have "unat (i w) + 511 \<le> 512" using assms by simp
  from wave_inner [OF this]
  have a: "(wave_step ^^ 511) w = w\<lparr>slope := adj (CC w) (slope w), i := 512\<rparr>"
    using assms by simp
  have "(wave_step ^^ 512) w = wave_step ((wave_step ^^ 511) w)"
    using funpow.simps(2) [of 511 wave_step] by simp
  also have "\<dots> = w\<lparr>slope := adj (CC w) (slope w), CC := CC w + adj (CC w) (slope w), i := 1\<rparr>"
    by (simp add: a wave_step_top adj_idem)
  finally show ?thesis .
qed

lemma block_next:
  assumes i1: "i w = 1" and c: "unat (CC w) = tri k" and k: "k < 1024"
    and s: "k = 0 \<or> slope w = (if k \<le> 512 then 1 else - 1)"
  shows "unat (CC ((wave_step ^^ 512) w)) = tri (if k = 1023 then 0 else Suc k) \<and>
         i ((wave_step ^^ 512) w) = 1 \<and>
         slope ((wave_step ^^ 512) w) = (if k < 512 then 1 else - 1)"
proof -
  note next_w = wave_block [OF i1]
  consider (zero) "k = 0" | (up) "1 \<le> k" "k < 512" | (top) "k = 512"
    | (down) "512 < k" "k < 1023" | (last) "k = 1023"
    using k by linarith
  then show ?thesis
  proof cases
    case zero
    then have "CC w = 0" using c by (simp add: word_eq_unat_0 tri_def)
    then show ?thesis using zero by (simp add: next_w adj_def TOP_CNT_def tri_def)
  next
    case up
    then have u: "unat (CC w) = k" using c by (simp add: tri_def)
    then have "CC w \<noteq> 0" "CC w \<noteq> 512"
      using up by (simp_all add: word_eq_unat_0 word_eq_unat_512)
    moreover have "slope w = 1" using s up by simp
    ultimately show ?thesis using up u
      by (simp add: next_w adj_def TOP_CNT_def tri_def unat_inc)
  next
    case top
    then have "CC w = 512" using c by (simp add: word_eq_unat_512 tri_def)
    then show ?thesis using top by (simp add: next_w adj_def TOP_CNT_def tri_def)
  next
    case down
    then have u: "unat (CC w) = 1024 - k" using c by (simp add: tri_def)
    then have "CC w \<noteq> 0" "CC w \<noteq> 512"
      using down by (simp_all add: word_eq_unat_0 word_eq_unat_512)
    moreover have "slope w = - 1" using s down by simp
    ultimately show ?thesis using down u
      by (simp add: next_w adj_def TOP_CNT_def tri_def unat_dec)
  next
    case last
    then have u: "unat (CC w) = 1" using c by (simp add: tri_def)
    then have "CC w \<noteq> 0" "CC w \<noteq> 512"
      by (simp_all add: word_eq_unat_0 word_eq_unat_512)
    moreover have "slope w = - 1" using s last by simp
    ultimately show ?thesis using last u
      by (simp add: next_w adj_def TOP_CNT_def tri_def unat_dec)
  qed
qed

text \<open>The state every 512 iterations, from a state with \<open>CC = 0\<close> and \<open>i = 1\<close>.\<close>

lemma wave_blocks:
  assumes "CC w = 0" and "i w = 1"
  shows "unat (CC ((wave_step ^^ (512 * q)) w)) = tri (q mod 1024) \<and>
         i ((wave_step ^^ (512 * q)) w) = 1 \<and>
         (q mod 1024 = 0 \<or>
          slope ((wave_step ^^ (512 * q)) w) = (if q mod 1024 \<le> 512 then 1 else - 1))"
proof (induction q)
  case 0
  show ?case using assms by (simp add: tri_def)
next
  case (Suc q)
  define w1 where "w1 = (wave_step ^^ (512 * q)) w"
  define k where "k = q mod 1024"
  have k: "k < 1024" by (simp add: k_def)
  have pre: "i w1 = 1" "unat (CC w1) = tri k" "k = 0 \<or> slope w1 = (if k \<le> 512 then 1 else - 1)"
    using Suc.IH by (simp_all add: w1_def k_def)
  have "512 * Suc q = 512 + 512 * q" by simp
  then have w2: "(wave_step ^^ (512 * Suc q)) w = (wave_step ^^ 512) w1"
    by (simp only: funpow_add o_apply w1_def)
  have k': "Suc q mod 1024 = (if k = 1023 then 0 else Suc k)"
    by (simp add: mod_Suc k_def)
  have "(if k < 512 then 1 else - 1 :: int32) =
          (if (if k = 1023 then 0 else Suc k) \<le> 512 then 1 else - 1)
        \<or> (if k = 1023 then 0 else Suc k) = 0"
    by simp
  then show ?case
    using block_next [OF pre(1) pre(2) k pre(3)] unfolding w2 k' by auto
qed

text \<open>The amplitude and the inner counter after any number of iterations.\<close>

lemma wave_closed:
  assumes "CC w = 0" and "i w = 1"
  shows "unat (CC ((wave_step ^^ m) w)) = tri (m div 512 mod 1024) \<and>
         unat (i ((wave_step ^^ m) w)) = 1 + m mod 512"
proof -
  let ?q = "m div 512" and ?r = "m mod 512"
  let ?w = "(wave_step ^^ (512 * ?q)) w"
  have b: "unat (CC ?w) = tri (?q mod 1024)" "i ?w = 1"
    using wave_blocks [OF assms, of ?q] by simp_all
  have "m = ?r + 512 * ?q" by simp
  then have "(wave_step ^^ m) w = (wave_step ^^ (?r + 512 * ?q)) w" by simp
  also have "\<dots> = (wave_step ^^ ?r) ?w"
    by (simp only: funpow_add o_apply)
  finally have split: "(wave_step ^^ m) w = (wave_step ^^ ?r) ?w" .
  have "unat (i ?w) + ?r \<le> 512" using b(2) by simp
  from wave_inner [OF this]
  have inner: "(wave_step ^^ ?r) ?w =
      (if ?r = 0 then ?w else ?w\<lparr>slope := adj (CC ?w) (slope ?w), i := i ?w + of_nat ?r\<rparr>)" .
  have "unat (1 + of_nat ?r :: uint32) = 1 + ?r"
    by (simp add: unat_word_ariths unat_of_nat)
  then show ?thesis using b by (simp add: split inner)
qed

lemma cycle_arith: "(tri (m div 512 mod 1024) = 0 \<and> m mod 512 = 0) = (m mod 524288 = 0)"
proof -
  have "m mod (512 * 1024) = 512 * (m div 512 mod 1024) + m mod 512"
    by (rule mod_mult2_eq)
  then have "(m mod 524288 = 0) = (m div 512 mod 1024 = 0 \<and> m mod 512 = 0)" by simp
  then show ?thesis by (simp add: tri_eq_0)
qed

text \<open>
  C6. The first iteration of the loop of \<^verbatim>\<open>throb\<close> takes \<^verbatim>\<open>i\<close> from 0 to 1 with
  \<^verbatim>\<open>CC\<close> at 0. After \<open>m\<close> more iterations the inner counter \<^verbatim>\<open>i\<close> is
  \<open>1 + m mod 512\<close> and the amplitude \<^verbatim>\<open>CC\<close> is the triangle wave of
  \<open>m div 512\<close>: it goes up by one every 512 iterations from 0 to 512, reached
  after \<open>512 * 512\<close> iterations, then down by one every 512 iterations to 0,
  reached after \<open>2 * 512 * 512\<close> iterations. The loop is back at \<^verbatim>\<open>CC = 0\<close>,
  \<^verbatim>\<open>i = 1\<close> exactly when \<open>m\<close> is a multiple of \<open>2 * 512 * 512 = 524288\<close>:
  one rise and fall takes 524288 iterations, neither more nor fewer.
\<close>

theorem throb_cycle_length:
  "unat (CC (fst (throb_at port pin (Suc m) (throb_init, h)))) =
     (if m div 512 mod 1024 \<le> 512 then m div 512 mod 1024 else 1024 - m div 512 mod 1024) \<and>
   unat (i (fst (throb_at port pin (Suc m) (throb_init, h)))) = 1 + m mod 512 \<and>
   ((CC (fst (throb_at port pin (Suc m) (throb_init, h))) = 0 \<and>
     i (fst (throb_at port pin (Suc m) (throb_init, h))) = 1) = (m mod 524288 = 0)) \<and>
   CC (fst (throb_at port pin (Suc (512 * 512)) (throb_init, h))) = TOP_CNT \<and>
   CC (fst (throb_at port pin (Suc (2 * 512 * 512)) (throb_init, h))) = 0 \<and>
   2 * 512 * 512 = (524288 :: nat)"
proof -
  define w1 where "w1 = wave_step throb_init"
  have start: "CC w1 = 0" "i w1 = 1"
    by (simp_all add: w1_def wave_step_def throb_init_def TOP_CNT_def Let_def)
  have at_eq: "fst (throb_at port pin (Suc k) (throb_init, h)) = (wave_step ^^ k) w1" for k
    by (simp add: fst_throb_at funpow_swap1 w1_def)
  have closed: "unat (CC ((wave_step ^^ k) w1)) = tri (k div 512 mod 1024)"
     "unat (i ((wave_step ^^ k) w1)) = 1 + k mod 512" for k
    using wave_closed [OF start, of k] by simp_all
  have ret: "(CC ((wave_step ^^ m) w1) = 0 \<and> i ((wave_step ^^ m) w1) = 1) = (m mod 524288 = 0)"
  proof -
    have "(CC ((wave_step ^^ m) w1) = 0 \<and> i ((wave_step ^^ m) w1) = 1)
        = (unat (CC ((wave_step ^^ m) w1)) = 0 \<and> unat (i ((wave_step ^^ m) w1)) = 1)"
      by (simp add: word_eq_unat_0 word_unat_eq_iff)
    also have "\<dots> = (tri (m div 512 mod 1024) = 0 \<and> m mod 512 = 0)"
      by (simp add: closed)
    also have "\<dots> = (m mod 524288 = 0)" by (rule cycle_arith)
    finally show ?thesis .
  qed
  have "unat (CC ((wave_step ^^ (512 * 512)) w1)) = 512"
    by (simp add: closed tri_def)
  then have peak: "CC ((wave_step ^^ (512 * 512)) w1) = TOP_CNT"
    by (simp add: TOP_CNT_def word_eq_unat_512)
  have "unat (CC ((wave_step ^^ (2 * 512 * 512)) w1)) = 0"
    by (simp add: closed tri_def)
  then have zero: "CC ((wave_step ^^ (2 * 512 * 512)) w1) = 0"
    by (simp add: word_eq_unat_0)
  show ?thesis
    unfolding at_eq using closed [of m] ret peak zero by (simp add: tri_def)
qed

end
